theory Spec2Isabelle
  imports Main "HOL-Library.Word"
begin

section \<open>JavaScript values used by the image service\<close>

text \<open>
  A JavaScript string is a sequence of UTF-16 code units. String literals of the source
  are written with \<open>lit\<close>; the accented letters of the Spanish messages are Latin-1 and
  are given by their code unit.
\<close>

type_synonym jschar = "16 word"
type_synonym jsstring = "jschar list"

definition lit :: "string \<Rightarrow> jsstring" where
  "lit s = map (\<lambda>c. of_nat (of_char c)) s"

text \<open>\<open>String.prototype.trim\<close>: strips WhiteSpace and LineTerminator code units.\<close>

definition WhiteSpace :: "jschar \<Rightarrow> bool" where
  "WhiteSpace c =
     (c \<in> {0x9, 0xA, 0xB, 0xC, 0xD, 0x20, 0xA0, 0x1680, 0x2028, 0x2029, 0x202F,
           0x205F, 0x3000, 0xFEFF}
      \<or> (0x2000 \<le> c \<and> c \<le> 0x200A))"

definition trim :: "jsstring \<Rightarrow> jsstring" where
  "trim s = rev (dropWhile WhiteSpace (rev (dropWhile WhiteSpace s)))"

definition startsWith :: "jsstring \<Rightarrow> jsstring \<Rightarrow> bool" where
  "startsWith s p = (take (length p) s = p)"

text \<open>\<open>s.split(sep)\<close> for a separator of one code unit.\<close>

fun split_on :: "jschar \<Rightarrow> jsstring \<Rightarrow> jsstring list" where
  "split_on sep [] = [[]]"
| "split_on sep (c # cs) =
     (if c = sep then [] # split_on sep cs
      else (case split_on sep cs of
              [] \<Rightarrow> [[c]]
            | x # xs \<Rightarrow> (c # x) # xs))"

text \<open>\<open>a[i]\<close>: \<open>undefined\<close> (here \<open>None\<close>) outside the array.\<close>

definition array_get :: "'a list \<Rightarrow> nat \<Rightarrow> 'a option" where
  "array_get a i = (if i < length a then Some (a ! i) else None)"

text \<open>The decimal text of a non-negative integer, as a template literal renders it.\<close>

fun Number_toString :: "nat \<Rightarrow> jsstring" where
  "Number_toString n =
     (if n < 10 then [of_nat (48 + n)]
      else Number_toString (n div 10) @ [of_nat (48 + n mod 10)])"

declare Number_toString.simps [simp del]

text \<open>
  Thrown values. \<open>Error m\<close> is an instance of \<open>Error\<close> (or of a subclass) with message
  \<open>m\<close>, created by \<open>new Error(m)\<close> or delivered by the environment. \<open>TypeError\<close> and
  \<open>URIError\<close> are the faults the language itself raises; they are instances of \<open>Error\<close>
  whose message text is chosen by the engine. \<open>NonError\<close> is any other rejection value
  (such as the error event of a \<open>FileReader\<close>).
\<close>

datatype access_fault =
    CandidatesUndefined
  | FirstCandidateUndefined
  | ContentUndefined
  | PartsNotIterable

datatype thrown =
    Error jsstring
  | TypeError access_fault
  | URIError
  | NonError

fun instanceof_Error :: "thrown \<Rightarrow> bool" where
  "instanceof_Error NonError = False"
| "instanceof_Error _ = True"

fun message :: "(thrown \<Rightarrow> jsstring) \<Rightarrow> thrown \<Rightarrow> jsstring" where
  "message engine_text (Error m) = m"
| "message engine_text e = engine_text e"

subsection \<open>encodeURIComponent\<close>

definition uriUnreserved :: "jschar \<Rightarrow> bool" where
  "uriUnreserved c =
     ((0x41 \<le> c \<and> c \<le> 0x5A) \<or> (0x61 \<le> c \<and> c \<le> 0x7A) \<or> (0x30 \<le> c \<and> c \<le> 0x39)
      \<or> c \<in> {0x2D, 0x5F, 0x2E, 0x21, 0x7E, 0x2A, 0x27, 0x28, 0x29})"

definition isLeadSurrogate :: "jschar \<Rightarrow> bool" where
  "isLeadSurrogate c = (0xD800 \<le> c \<and> c \<le> 0xDBFF)"

definition isTrailSurrogate :: "jschar \<Rightarrow> bool" where
  "isTrailSurrogate c = (0xDC00 \<le> c \<and> c \<le> 0xDFFF)"

definition hexDigit :: "nat \<Rightarrow> jschar" where
  "hexDigit n = (if n < 10 then of_nat (48 + n) else of_nat (55 + n))"

definition percentOctet :: "nat \<Rightarrow> jsstring" where
  "percentOctet b = [0x25, hexDigit (b div 16), hexDigit (b mod 16)]"

definition utf8 :: "nat \<Rightarrow> nat list" where
  "utf8 cp =
     (if cp < 0x80 then [cp]
      else if cp < 0x800 then [0xC0 + cp div 64, 0x80 + cp mod 64]
      else if cp < 0x10000 then
        [0xE0 + cp div 4096, 0x80 + (cp div 64) mod 64, 0x80 + cp mod 64]
      else
        [0xF0 + cp div 262144, 0x80 + (cp div 4096) mod 64, 0x80 + (cp div 64) mod 64,
         0x80 + cp mod 64])"

definition percentEncode :: "nat \<Rightarrow> jsstring" where
  "percentEncode cp = concat (map percentOctet (utf8 cp))"

definition appendTo :: "jsstring \<Rightarrow> thrown + jsstring \<Rightarrow> thrown + jsstring" where
  "appendTo s r = (case r of Inl e \<Rightarrow> Inl e | Inr t \<Rightarrow> Inr (s @ t))"

fun encodeURIComponent :: "jsstring \<Rightarrow> thrown + jsstring" where
  "encodeURIComponent [] = Inr []"
| "encodeURIComponent (c # cs) =
     (if uriUnreserved c then appendTo [c] (encodeURIComponent cs)
      else if isLeadSurrogate c then
        (case cs of
           [] \<Rightarrow> Inl URIError
         | d # ds \<Rightarrow>
             if isTrailSurrogate d
             then appendTo
                    (percentEncode ((unat c - 0xD800) * 0x400 + (unat d - 0xDC00) + 0x10000))
                    (encodeURIComponent ds)
             else Inl URIError)
      else if isTrailSurrogate c then Inl URIError
      else appendTo (percentEncode (unat c)) (encodeURIComponent cs))"

section \<open>The fetch adapter: urlToBase64\<close>

text \<open>
  The browser and the network are the environment. A \<open>Blob\<close> is known by its \<open>type\<close>
  and by what \<open>FileReader.readAsDataURL\<close> delivers for it (\<open>None\<close>: the read fails and
  the reader fires its error event). A \<open>Response\<close> has \<open>ok\<close>, \<open>statusText\<close> and the
  outcome of \<open>response.blob()\<close>. \<open>fetch\<close> maps the requested URL to a rejection or a
  response.
\<close>

record blob =
  blob_type :: jsstring
  readAsDataURL :: "jsstring option"

record response =
  ok :: bool
  statusText :: jsstring
  blob_result :: "thrown + blob"

record payload =
  base64 :: jsstring
  mimeType :: jsstring

record inline_data =
  data :: "jsstring option"
  inline_mimeType :: "jsstring option"

record part =
  part_text :: "jsstring option"
  inlineData :: "inline_data option"

datatype modality = IMAGE

record request =
  model :: jsstring
  contents_parts :: "part list"
  responseModalities :: "modality list"

datatype event =
    Fetch jsstring
  | ConsoleWarn thrown
  | ConsoleError thrown
  | GenerateContent request

definition not_an_image_msg :: jsstring where
  "not_an_image_msg = lit ''Fetched file is not an image.''"

definition read_failed_msg :: jsstring where
  "read_failed_msg = lit ''Failed to read base64 string from image.''"

definition load_failed_msg :: jsstring where
  "load_failed_msg =
     lit ''No se pudo cargar desde ese enlace. Podr'' @ [0xED] @ lit ''a ser una p'' @ [0xE1]
     @ lit ''gina web o el servidor est'' @ [0xE1]
     @ lit '' bloqueando las solicitudes. Por favor, haz clic derecho en la imagen que quieres usar, selecciona ''
     @ [0x27] @ lit ''Copiar direcci'' @ [0xF3] @ lit ''n de imagen'' @ [0x27]
     @ lit '' y pega ese nuevo enlace aqu'' @ [0xED] @ lit ''.''"

text \<open>
  \<open>processBlob\<close> (lines 264-281 of the service source). A blob whose type does not start
  with \<open>image/\<close> throws. Otherwise the promise around the \<open>FileReader\<close>: the reader's error
  event rejects it with a value that is not an \<open>Error\<close>; a result with nothing after its
  first comma rejects it with the read error; else it is fulfilled with the text between
  the first and the second comma and the type of the blob.
\<close>

definition processBlob :: "blob \<Rightarrow> thrown + payload" where
  "processBlob b =
     (if \<not> startsWith (blob_type b) (lit ''image/'') then Inl (Error not_an_image_msg)
      else (case readAsDataURL b of
              None \<Rightarrow> Inl NonError
            | Some result \<Rightarrow>
                (case array_get (split_on 0x2C result) 1 of
                   None \<Rightarrow> Inl (Error read_failed_msg)
                 | Some base64String \<Rightarrow>
                     if base64String = [] then Inl (Error read_failed_msg)
                     else Inr \<lparr>base64 = base64String, mimeType = blob_type b\<rparr>)))"

text \<open>
  The statements that follow the \<open>fetch\<close> in each of the two try blocks (lines 288-292
  and 299-303): the status check, \<open>blob()\<close> and \<open>processBlob\<close>. The blocks differ in the
  prefix of the status error only.
\<close>

definition read_response :: "jsstring \<Rightarrow> thrown + response \<Rightarrow> thrown + payload" where
  "read_response failed_prefix r =
     (case r of
        Inl e \<Rightarrow> Inl e
      | Inr resp \<Rightarrow>
          if \<not> ok resp then Inl (Error (failed_prefix @ statusText resp))
          else (case blob_result resp of
                  Inl e \<Rightarrow> Inl e
                | Inr b \<Rightarrow> processBlob b))"

definition proxy_prefix :: jsstring where
  "proxy_prefix = lit ''https://api.allorigins.win/raw?url=''"

text \<open>
  Attempt 1 (lines 284-292): the fetch through the CORS proxy. Building the address can
  throw already; then no fetch is issued.
\<close>

definition proxy_attempt ::
  "(jsstring \<Rightarrow> thrown + response) \<Rightarrow> jsstring \<Rightarrow> event list \<times> (thrown + payload)" where
  "proxy_attempt fetch url =
     (case encodeURIComponent url of
        Inl e \<Rightarrow> ([], Inl e)
      | Inr enc \<Rightarrow>
          (let proxyUrl = proxy_prefix @ enc
           in ([Fetch proxyUrl],
               read_response (lit ''Proxy fetch failed with status: '') (fetch proxyUrl))))"

text \<open>Attempt 2 (lines 297-303): the direct fetch.\<close>

definition direct_attempt ::
  "(jsstring \<Rightarrow> thrown + response) \<Rightarrow> jsstring \<Rightarrow> event list \<times> (thrown + payload)" where
  "direct_attempt fetch url =
     ([Fetch url], read_response (lit ''Direct fetch failed with status: '') (fetch url))"

text \<open>
  \<open>urlToBase64\<close> (lines 263-309). Each catch block logs what it caught; the inner one
  throws the user-facing error. The result comes with the events in their order.
\<close>

definition urlToBase64 ::
  "(jsstring \<Rightarrow> thrown + response) \<Rightarrow> jsstring \<Rightarrow> event list \<times> (thrown + payload)" where
  "urlToBase64 fetch url =
     (case proxy_attempt fetch url of
        (ev1, Inr p) \<Rightarrow> (ev1, Inr p)
      | (ev1, Inl proxyError) \<Rightarrow>
          (case direct_attempt fetch url of
             (ev2, Inr p) \<Rightarrow> (ev1 @ [ConsoleWarn proxyError] @ ev2, Inr p)
           | (ev2, Inl directError) \<Rightarrow>
               (ev1 @ [ConsoleWarn proxyError] @ ev2 @ [ConsoleError directError],
                Inl (Error load_failed_msg))))"

text \<open>The URLs fetched, in order.\<close>

fun fetches :: "event list \<Rightarrow> jsstring list" where
  "fetches [] = []"
| "fetches (Fetch u # es) = u # fetches es"
| "fetches (_ # es) = fetches es"

section \<open>The orchestrator: generateImages\<close>

text \<open>
  The environment of one batch. The task built for index \<open>i\<close> reaches the network
  through \<open>fetch env i\<close> and the generation service through \<open>generateContent env i\<close>,
  so two tasks that send the same request may get different answers. \<open>settled env i\<close>
  is the time at which the promise of task \<open>i\<close> settles; the environment chooses it
  freely. \<open>engine_text env\<close> is the engine's message text for its own faults. The
  construction of the service client is taken to return.
\<close>

record content =
  parts :: "part list option"

record candidate =
  candidate_content :: "content option"

record gen_response =
  candidates :: "candidate list option"

record env =
  fetch :: "nat \<Rightarrow> jsstring \<Rightarrow> thrown + response"
  generateContent :: "nat \<Rightarrow> request \<Rightarrow> thrown + gen_response"
  settled :: "nat \<Rightarrow> nat"
  engine_text :: "thrown \<Rightarrow> jsstring"

definition text_part :: "jsstring \<Rightarrow> part" where
  "text_part t = \<lparr>part_text = Some t, inlineData = None\<rparr>"

definition inline_part :: "payload \<Rightarrow> part" where
  "inline_part p =
     \<lparr>part_text = None,
      inlineData = Some \<lparr>data = Some (base64 p), inline_mimeType = Some (mimeType p)\<rparr>\<rparr>"

text \<open>A template literal renders an absent value as the word \<open>undefined\<close>.\<close>

definition template :: "jsstring option \<Rightarrow> jsstring" where
  "template v = (case v of None \<Rightarrow> lit ''undefined'' | Some s \<Rightarrow> s)"

definition data_url :: "inline_data \<Rightarrow> jsstring" where
  "data_url d =
     lit ''data:'' @ template (inline_mimeType d) @ lit '';base64,'' @ template (data d)"

definition base_image_error_msg :: "nat \<Rightarrow> jsstring \<Rightarrow> jsstring" where
  "base_image_error_msg i m =
     lit ''Error con la Imagen Base '' @ Number_toString (i + 1) @ lit '': '' @ m"

definition not_generated_msg :: "nat \<Rightarrow> jsstring" where
  "not_generated_msg i =
     lit ''La imagen '' @ Number_toString (i + 1) @ lit '' no pudo ser generada.''"

text \<open>
  The first half of the task for index \<open>i\<close> (lines 323-341): the parts of its request.
  A reference that is present and not blank is resolved and put in front of the prompt;
  its failure is thrown again under the number of the slot.
\<close>

definition build_parts ::
  "env \<Rightarrow> jsstring \<Rightarrow> jsstring list \<Rightarrow> nat \<Rightarrow> event list \<times> (thrown + part list)" where
  "build_parts e p urls i =
     (case array_get urls i of
        None \<Rightarrow> ([], Inr [text_part p])
      | Some baseUrl \<Rightarrow>
          if baseUrl \<noteq> [] \<and> trim baseUrl \<noteq> [] then
            (case urlToBase64 (fetch e i) baseUrl of
               (ev, Inr pl) \<Rightarrow> (ev, Inr [inline_part pl, text_part p])
             | (ev, Inl err) \<Rightarrow>
                 (ev, Inl (if instanceof_Error err
                           then Error (base_image_error_msg i (message (engine_text e) err))
                           else err)))
          else ([], Inr [text_part p]))"

text \<open>The loop over the parts of the first candidate (lines 351-356).\<close>

fun first_inline :: "part list \<Rightarrow> jsstring option" where
  "first_inline [] = None"
| "first_inline (pt # pts) =
     (case inlineData pt of
        Some d \<Rightarrow> Some (data_url d)
      | None \<Rightarrow> first_inline pts)"

text \<open>
  The second half of the task (lines 351-357): reading the answer. Each step of
  \<open>response.candidates[0].content.parts\<close> faults on an absent value.
\<close>

definition extract_image :: "nat \<Rightarrow> gen_response \<Rightarrow> thrown + jsstring" where
  "extract_image i r =
     (case candidates r of
        None \<Rightarrow> Inl (TypeError CandidatesUndefined)
      | Some [] \<Rightarrow> Inl (TypeError FirstCandidateUndefined)
      | Some (c # _) \<Rightarrow>
          (case candidate_content c of
             None \<Rightarrow> Inl (TypeError ContentUndefined)
           | Some ct \<Rightarrow>
               (case parts ct of
                  None \<Rightarrow> Inl (TypeError PartsNotIterable)
                | Some pts \<Rightarrow>
                    (case first_inline pts of
                       Some url \<Rightarrow> Inr url
                     | None \<Rightarrow> Inl (Error (not_generated_msg i))))))"

text \<open>The argument of \<open>generateContent\<close> (lines 343-349).\<close>

definition make_request :: "part list \<Rightarrow> request" where
  "make_request ps =
     \<lparr>model = lit ''gemini-2.5-flash-image'', contents_parts = ps,
      responseModalities = [IMAGE]\<rparr>"

text \<open>
  The asynchronous function of one index (lines 322-359): its events and its outcome.
\<close>

definition task ::
  "env \<Rightarrow> jsstring \<Rightarrow> jsstring list \<Rightarrow> nat \<Rightarrow> event list \<times> (thrown + jsstring)" where
  "task e p urls i =
     (case build_parts e p urls i of
        (ev, Inl err) \<Rightarrow> (ev, Inl err)
      | (ev, Inr ps) \<Rightarrow>
          (ev @ [GenerateContent (make_request ps)],
           case generateContent e i (make_request ps) of
             Inl err \<Rightarrow> Inl err
           | Inr r \<Rightarrow> extract_image i r))"

text \<open>
  \<open>Promise.all\<close>: fulfilled with the values in the order of the array when every promise
  is fulfilled; otherwise rejected with the reason of the promise that is rejected first
  in time (the one of the lowest index, should the model be given equal times).
\<close>

definition Promise_all :: "(nat \<Rightarrow> nat) \<Rightarrow> (thrown + 'a) list \<Rightarrow> thrown + 'a list" where
  "Promise_all settle outcomes =
     (case filter (\<lambda>i. isl (outcomes ! i)) [0..<length outcomes] of
        [] \<Rightarrow> Inr (map projr outcomes)
      | r # rs \<Rightarrow> Inl (projl (outcomes ! arg_min_list settle (r # rs))))"

text \<open>
  \<open>generateImages\<close> (lines 311-363): its result, with the events of each task, one list
  per index. Every task runs to its end, whatever becomes of the others. \<open>numImages\<close> is
  an integer, as the caller's \<open>parseInt\<close> delivers it; the loop runs for \<open>i\<close> from 0 while
  \<open>i < numImages\<close>.
\<close>

definition generateImages ::
  "env \<Rightarrow> jsstring \<Rightarrow> int \<Rightarrow> jsstring list \<Rightarrow> event list list \<times> (thrown + jsstring list)" where
  "generateImages e p n urls =
     (let generationPromises = map (task e p urls) [0..<nat n]
      in (map fst generationPromises, Promise_all (settled e) (map snd generationPromises)))"

text \<open>
  Whether the reference of index \<open>i\<close> is present, not blank and fails to resolve.
\<close>

definition reference_fails :: "env \<Rightarrow> jsstring list \<Rightarrow> nat \<Rightarrow> bool" where
  "reference_fails e urls i =
     (case array_get urls i of
        None \<Rightarrow> False
      | Some u \<Rightarrow> trim u \<noteq> [] \<and> isl (snd (urlToBase64 (fetch e i) u)))"

text \<open>The generation requests among some events.\<close>

fun requests :: "event list \<Rightarrow> request list" where
  "requests [] = []"
| "requests (GenerateContent r # es) = r # requests es"
| "requests (_ # es) = requests es"

section \<open>The caller: handleGenerateClick of App.tsx\<close>

text \<open>
  The state of the page that the handler reads and writes, and the handler of
  \<open>src/App.tsx\<close> (lines 186-205). It returns the events of the call and the state after
  its \<open>finally\<close> block; a blank prompt or a running call leaves the state as it is.
\<close>

record app_state =
  prompt :: jsstring
  numImages :: int
  baseImageUrls :: "jsstring list"
  generatedImages :: "jsstring list"
  isLoading :: bool
  error :: "jsstring option"

definition unknown_error_msg :: jsstring where
  "unknown_error_msg = lit ''Ocurri'' @ [0xF3] @ lit '' un error desconocido.''"

text \<open>The list that the handler passes on: the entries that are not blank (line 194).\<close>

definition compact_urls :: "jsstring list \<Rightarrow> jsstring list" where
  "compact_urls urls = filter (\<lambda>url. trim url \<noteq> []) urls"

definition handleGenerateClick :: "env \<Rightarrow> app_state \<Rightarrow> event list list \<times> app_state" where
  "handleGenerateClick e st =
     (if trim (prompt st) = [] \<or> isLoading st then ([], st)
      else
        (let st1 = st\<lparr>isLoading := True, error := None, generatedImages := []\<rparr>
         in (case generateImages e (prompt st) (numImages st) (compact_urls (baseImageUrls st)) of
               (ev, Inr images) \<Rightarrow> (ev, st1\<lparr>generatedImages := images, isLoading := False\<rparr>)
             | (ev, Inl err) \<Rightarrow>
                 (ev, st1\<lparr>error := Some (if instanceof_Error err
                                          then message (engine_text e) err
                                          else unknown_error_msg),
                          isLoading := False\<rparr>))))"

section \<open>Sample environments\<close>

text \<open>Concrete blobs, responses and environments on which the theorems below are run.\<close>

definition png_blob :: blob where
  "png_blob =
     \<lparr>blob_type = lit ''image/png'',
      readAsDataURL = Some (lit ''data:image/png;base64,QUJD'')\<rparr>"

definition html_blob :: blob where
  "html_blob =
     \<lparr>blob_type = lit ''text/html'',
      readAsDataURL = Some (lit ''data:text/html;base64,PGI+'')\<rparr>"

definition ok_response :: "blob \<Rightarrow> response" where
  "ok_response b = \<lparr>ok = True, statusText = lit ''OK'', blob_result = Inr b\<rparr>"

definition not_found :: response where
  "not_found = \<lparr>ok = False, statusText = lit ''Not Found'', blob_result = Inr html_blob\<rparr>"

definition png_inline :: inline_data where
  "png_inline = \<lparr>data = Some (lit ''QUJD''), inline_mimeType = Some (lit ''image/png'')\<rparr>"

definition answer_of :: "part list \<Rightarrow> gen_response" where
  "answer_of pts =
     \<lparr>candidates = Some [\<lparr>candidate_content = Some \<lparr>parts = Some pts\<rparr>\<rparr>]\<rparr>"

definition image_answer :: gen_response where
  "image_answer = answer_of [\<lparr>part_text = None, inlineData = Some png_inline\<rparr>]"

definition no_candidates :: gen_response where
  "no_candidates = \<lparr>candidates = Some []\<rparr>"

text \<open>Every fetch is rejected; every generation answers with an image.\<close>

definition env_down :: env where
  "env_down =
     \<lparr>fetch = (\<lambda>i u. Inl (Error (lit ''Failed to fetch''))),
      generateContent = (\<lambda>i r. Inr image_answer),
      settled = (\<lambda>i. i),
      engine_text = (\<lambda>t. [])\<rparr>"

text \<open>
  The proxy answers every request with a web page; the host of the image answers the
  direct request with the image.
\<close>

definition env_proxy_html :: env where
  "env_proxy_html =
     \<lparr>fetch = (\<lambda>i u. if u = lit ''u'' then Inr (ok_response png_blob)
                        else Inr (ok_response html_blob)),
      generateContent = (\<lambda>i r. Inr image_answer),
      settled = (\<lambda>i. i),
      engine_text = (\<lambda>t. [])\<rparr>"

text \<open>The proxy delivers the image.\<close>

definition env_proxy_png :: env where
  "env_proxy_png =
     \<lparr>fetch = (\<lambda>i u. if u = lit ''u'' then Inr not_found
                        else Inr (ok_response png_blob)),
      generateContent = (\<lambda>i r. Inr image_answer),
      settled = (\<lambda>i. i),
      engine_text = (\<lambda>t. [])\<rparr>"

text \<open>The generation for index 1 answers with text only; it settles last.\<close>

definition env_text_answer :: env where
  "env_text_answer =
     \<lparr>fetch = (\<lambda>i u. Inl (Error (lit ''Failed to fetch''))),
      generateContent =
        (\<lambda>i r. if i = 1 then Inr (answer_of [\<lparr>part_text = Some (lit ''no''), inlineData = None\<rparr>])
               else Inr image_answer),
      settled = (\<lambda>i. 3 - i),
      engine_text = (\<lambda>t. [])\<rparr>"

text \<open>Every fetch, through the proxy or direct, is answered with a web page.\<close>

definition env_html :: env where
  "env_html =
     \<lparr>fetch = (\<lambda>i u. Inr (ok_response html_blob)),
      generateContent = (\<lambda>i r. Inr image_answer),
      settled = (\<lambda>i. i),
      engine_text = (\<lambda>t. [])\<rparr>"

text \<open>
  The answer to the request of index \<open>i\<close> carries the number \<open>i\<close>; the promises settle in
  the reverse order of their indices; every fetch is rejected.
\<close>

definition numbered_answer :: "nat \<Rightarrow> gen_response" where
  "numbered_answer i =
     answer_of [\<lparr>part_text = None,
                 inlineData = Some \<lparr>data = Some (Number_toString i),
                                    inline_mimeType = Some (lit ''image/png'')\<rparr>\<rparr>]"

definition env_numbered :: env where
  "env_numbered =
     \<lparr>fetch = (\<lambda>i u. Inl (Error (lit ''Failed to fetch''))),
      generateContent = (\<lambda>i r. Inr (numbered_answer i)),
      settled = (\<lambda>i. 3 - i),
      engine_text = (\<lambda>t. [])\<rparr>"

text \<open>A state of the page: a blank first slot, a URL in the second.\<close>

definition sample_state :: app_state where
  "sample_state =
     \<lparr>prompt = lit ''p'', numImages = 2, baseImageUrls = [lit '' '', lit ''u''],
      generatedImages = [lit ''old''], isLoading = False, error = None\<rparr>"

section \<open>Properties of the fetch adapter\<close>

subsection \<open>Events and attempts\<close>

lemma fetches_append: "fetches (a @ b) = fetches a @ fetches b"
  by (induction a rule: fetches.induct) simp_all

lemma requests_append: "requests (a @ b) = requests a @ requests b"
  by (induction a rule: requests.induct) simp_all

lemma proxy_attempt_enc:
  "encodeURIComponent url = Inr enc \<Longrightarrow>
   proxy_attempt f url =
     ([Fetch (proxy_prefix @ enc)],
      read_response (lit ''Proxy fetch failed with status: '') (f (proxy_prefix @ enc)))"
  by (simp add: proxy_attempt_def Let_def)

lemma proxy_attempt_uri_error:
  "encodeURIComponent url = Inl err \<Longrightarrow> proxy_attempt f url = ([], Inl err)"
  by (simp add: proxy_attempt_def)

lemma proxy_attempt_fetches: "length (fetches (fst (proxy_attempt f url))) \<le> 1"
  by (simp add: proxy_attempt_def Let_def split: sum.split)

lemma proxy_attempt_requests: "requests (fst (proxy_attempt f url)) = []"
  by (simp add: proxy_attempt_def Let_def split: sum.split)

lemma urlToBase64_requests: "requests (fst (urlToBase64 f url)) = []"
  using proxy_attempt_requests [of f url]
  by (auto simp: urlToBase64_def direct_attempt_def requests_append split: prod.split sum.split)

text \<open>Whatever goes wrong inside, the only error that leaves \<open>urlToBase64\<close> is its own.\<close>

lemma urlToBase64_error: "snd (urlToBase64 f url) = Inl err \<Longrightarrow> err = Error load_failed_msg"
  by (auto simp: urlToBase64_def split: prod.splits sum.splits)


text \<open>
  \<open>encodeURIComponent\<close> throws only on an unpaired surrogate, which no URL contains.
\<close>

lemma encodeURIComponent_returns:
  "\<forall>c \<in> set s. \<not> isLeadSurrogate c \<and> \<not> isTrailSurrogate c \<Longrightarrow>
   \<exists>enc. encodeURIComponent s = Inr enc"
  by (induction s) (auto simp: appendTo_def)

subsection \<open>Facts about the sample data\<close>

lemma enc_u: "encodeURIComponent (lit ''u'') = Inr (lit ''u'')"
  by (simp add: lit_def uriUnreserved_def appendTo_def)

lemma blank_space: "trim (lit '' '') = []"
  by (simp add: trim_def lit_def WhiteSpace_def)

lemma nonblank_u: "trim (lit ''u'') \<noteq> []"
  by (simp add: trim_def lit_def WhiteSpace_def)


lemma html_not_image: "\<not> startsWith (blob_type html_blob) (lit ''image/'')"
  by (simp add: html_blob_def startsWith_def lit_def)

subsection \<open>Claim C2: proxy first, one direct fallback, at most two fetches\<close>

text \<open>
  C2. \<open>urlToBase64\<close> never issues more than two fetches. For a URL that
  \<open>encodeURIComponent\<close> accepts, the first fetch goes to the proxy address of the URL.
  When that attempt succeeds it is the only fetch and its payload is returned. When it
  fails (a rejected fetch, a response that is not ok, a failing \<open>blob()\<close>, content that
  is not an image, a failing read) exactly one more fetch is issued, to the URL itself;
  its payload is returned when it succeeds, and when it fails too the error thrown is the
  user-facing message about the blocked link and the way around it. For a string with an
  unpaired surrogate the first attempt fails while it builds the proxy address, before
  its fetch, and the direct fetch is the only one.
\<close>

theorem urlToBase64_two_attempts:
  "length (fetches (fst (urlToBase64 f url))) \<le> 2 \<and>
   (\<forall>enc. encodeURIComponent url = Inr enc \<longrightarrow>
      (let proxyUrl = proxy_prefix @ enc;
           attempt1 = read_response (lit ''Proxy fetch failed with status: '') (f proxyUrl);
           attempt2 = read_response (lit ''Direct fetch failed with status: '') (f url)
       in fetches (fst (urlToBase64 f url)) = (if isl attempt1 then [proxyUrl, url] else [proxyUrl])
          \<and> snd (urlToBase64 f url) =
              (case attempt1 of
                 Inr p \<Rightarrow> Inr p
               | Inl _ \<Rightarrow> (case attempt2 of Inr p \<Rightarrow> Inr p | Inl _ \<Rightarrow> Inl (Error load_failed_msg)))
          \<and> ((\<exists>err. f proxyUrl = Inl err)
               \<or> (\<exists>resp. f proxyUrl = Inr resp
                      \<and> (\<not> ok resp
                          \<or> (\<exists>b. blob_result resp = Inr b
                                 \<and> \<not> startsWith (blob_type b) (lit ''image/''))))
               \<longrightarrow> isl attempt1))) \<and>
   (\<forall>err. encodeURIComponent url = Inl err \<longrightarrow>
      fetches (fst (urlToBase64 f url)) = [url]
      \<and> snd (urlToBase64 f url) =
          (case read_response (lit ''Direct fetch failed with status: '') (f url) of
             Inr p \<Rightarrow> Inr p
           | Inl _ \<Rightarrow> Inl (Error load_failed_msg)))"
proof -
  have bound: "length (fetches (fst (urlToBase64 f url))) \<le> 2"
    using proxy_attempt_fetches [of f url]
    by (auto simp: urlToBase64_def direct_attempt_def fetches_append split: prod.split sum.split)
  have shape: "fetches (fst (urlToBase64 f url)) =
        (if isl (read_response (lit ''Proxy fetch failed with status: '') (f (proxy_prefix @ enc)))
         then [proxy_prefix @ enc, url] else [proxy_prefix @ enc])
      \<and> snd (urlToBase64 f url) =
        (case read_response (lit ''Proxy fetch failed with status: '') (f (proxy_prefix @ enc)) of
           Inr p \<Rightarrow> Inr p
         | Inl _ \<Rightarrow> (case read_response (lit ''Direct fetch failed with status: '') (f url) of
                      Inr p \<Rightarrow> Inr p | Inl _ \<Rightarrow> Inl (Error load_failed_msg)))"
    if "encodeURIComponent url = Inr enc" for enc
    using that
    by (auto simp: urlToBase64_def proxy_attempt_enc direct_attempt_def split: sum.split)
  have kinds: "isl (read_response pfx r)"
    if "(\<exists>err. r = Inl err)
        \<or> (\<exists>resp. r = Inr resp
               \<and> (\<not> ok resp
                   \<or> (\<exists>b. blob_result resp = Inr b
                          \<and> \<not> startsWith (blob_type b) (lit ''image/''))))" for pfx r
    using that by (auto simp: read_response_def processBlob_def split: sum.split)
  have unencodable: "fetches (fst (urlToBase64 f url)) = [url]
      \<and> snd (urlToBase64 f url) =
          (case read_response (lit ''Direct fetch failed with status: '') (f url) of
             Inr p \<Rightarrow> Inr p
           | Inl _ \<Rightarrow> Inl (Error load_failed_msg))"
    if "encodeURIComponent url = Inl err" for err
    using that
    by (auto simp: urlToBase64_def proxy_attempt_uri_error direct_attempt_def split: sum.split)
  show ?thesis using bound shape kinds unencodable by (simp add: Let_def)
qed

text \<open>
  Run on three inputs: a network where the proxy answers with a web page and the direct
  fetch delivers the image, a network where every fetch is rejected, and a string that
  is an unpaired surrogate.
\<close>

theorem urlToBase64_two_attempts_witness:
  "encodeURIComponent (lit ''u'') = Inr (lit ''u'')
   \<and> fetch env_proxy_html 0 (proxy_prefix @ lit ''u'') = Inr (ok_response html_blob)
   \<and> \<not> startsWith (blob_type html_blob) (lit ''image/'')
   \<and> fetches (fst (urlToBase64 (fetch env_proxy_html 0) (lit ''u'')))
       = [proxy_prefix @ lit ''u'', lit ''u'']
   \<and> snd (urlToBase64 (fetch env_proxy_html 0) (lit ''u''))
       = Inr \<lparr>base64 = lit ''QUJD'', mimeType = lit ''image/png''\<rparr>
   \<and> fetches (fst (urlToBase64 (fetch env_down 0) (lit ''u'')))
       = [proxy_prefix @ lit ''u'', lit ''u'']
   \<and> snd (urlToBase64 (fetch env_down 0) (lit ''u'')) = Inl (Error load_failed_msg)
   \<and> encodeURIComponent [0xD800] = Inl URIError
   \<and> fetches (fst (urlToBase64 (fetch env_down 0) [0xD800])) = [[0xD800]]"
proof -
  have pre: "proxy_prefix @ lit ''u'' \<noteq> lit ''u''"
    by (simp add: proxy_prefix_def lit_def)
  have a: "fetch env_proxy_html 0 (proxy_prefix @ lit ''u'') = Inr (ok_response html_blob)"
    using pre by (simp add: env_proxy_html_def)
  have b: "fetch env_proxy_html 0 (lit ''u'') = Inr (ok_response png_blob)"
    by (simp add: env_proxy_html_def)
  have d: "processBlob png_blob = Inr \<lparr>base64 = lit ''QUJD'', mimeType = lit ''image/png''\<rparr>"
    by (simp add: processBlob_def png_blob_def startsWith_def lit_def array_get_def)
  have r1: "read_response pfx (Inr (ok_response html_blob)) = Inl (Error not_an_image_msg)" for pfx
    using html_not_image by (simp add: read_response_def ok_response_def processBlob_def)
  have r2: "read_response pfx (Inr (ok_response png_blob))
            = Inr \<lparr>base64 = lit ''QUJD'', mimeType = lit ''image/png''\<rparr>" for pfx
    using d by (simp add: read_response_def ok_response_def)
  have r3: "read_response pfx (fetch env_down 0 u) = Inl (Error (lit ''Failed to fetch''))" for pfx u
    by (simp add: read_response_def env_down_def)
  have lone: "encodeURIComponent [0xD800] = Inl URIError"
    by (simp add: uriUnreserved_def isLeadSurrogate_def)
  have page: "fetches (fst (urlToBase64 (fetch env_proxy_html 0) (lit ''u'')))
       = [proxy_prefix @ lit ''u'', lit ''u'']
     \<and> snd (urlToBase64 (fetch env_proxy_html 0) (lit ''u''))
       = Inr \<lparr>base64 = lit ''QUJD'', mimeType = lit ''image/png''\<rparr>"
    using urlToBase64_two_attempts [of "fetch env_proxy_html 0" "lit ''u''",
        THEN conjunct2, THEN conjunct1, rule_format, OF enc_u]
    by (simp add: a b r1 r2 Let_def)
  have down: "fetches (fst (urlToBase64 (fetch env_down 0) (lit ''u'')))
       = [proxy_prefix @ lit ''u'', lit ''u'']
     \<and> snd (urlToBase64 (fetch env_down 0) (lit ''u'')) = Inl (Error load_failed_msg)"
    using urlToBase64_two_attempts [of "fetch env_down 0" "lit ''u''",
        THEN conjunct2, THEN conjunct1, rule_format, OF enc_u]
    by (simp add: r3 Let_def)
  have surrogate: "fetches (fst (urlToBase64 (fetch env_down 0) [0xD800])) = [[0xD800]]"
    using urlToBase64_two_attempts [of "fetch env_down 0" "[0xD800]",
        THEN conjunct2, THEN conjunct2, rule_format, OF lone]
    by (rule conjunct1)
  show ?thesis
    by (intro conjI enc_u a html_not_image page [THEN conjunct1] page [THEN conjunct2]
        down [THEN conjunct1] down [THEN conjunct2] lone surrogate)
qed

subsection \<open>Claim C8: a direct success equals a proxy success\<close>

text \<open>
  C8. When the proxy attempt fails and the direct fetch delivers a blob that
  \<open>processBlob\<close> accepts, \<open>urlToBase64\<close> returns the same payload (base64 text and MIME
  type) as it returns on a network where the proxy fetch itself delivers that blob.
\<close>

theorem urlToBase64_direct_like_proxy:
  assumes "encodeURIComponent url = Inr enc"
    and "isl (snd (proxy_attempt f1 url))"
    and "f1 url = Inr resp1" and "ok resp1" and "blob_result resp1 = Inr b"
    and "f2 (proxy_prefix @ enc) = Inr resp2" and "ok resp2" and "blob_result resp2 = Inr b"
    and "processBlob b = Inr pl"
  shows "snd (urlToBase64 f1 url) = Inr pl \<and> snd (urlToBase64 f2 url) = snd (urlToBase64 f1 url)"
proof -
  have d1: "snd (direct_attempt f1 url) = Inr pl"
    using assms by (simp add: direct_attempt_def read_response_def)
  have one: "snd (urlToBase64 f1 url) = Inr pl"
    using assms(2) d1 by (auto simp: urlToBase64_def split: prod.split sum.split)
  have p2: "snd (proxy_attempt f2 url) = Inr pl"
    using assms by (simp add: proxy_attempt_enc read_response_def)
  have two: "snd (urlToBase64 f2 url) = Inr pl"
    using p2 by (auto simp: urlToBase64_def split: prod.split sum.split)
  show ?thesis using one two by simp
qed

text \<open>
  Run with the network whose proxy answers with a web page against the network whose
  proxy delivers the image.
\<close>

theorem urlToBase64_direct_like_proxy_witness:
  "encodeURIComponent (lit ''u'') = Inr (lit ''u'')
   \<and> isl (snd (proxy_attempt (fetch env_proxy_html 0) (lit ''u'')))
   \<and> fetch env_proxy_html 0 (lit ''u'') = Inr (ok_response png_blob)
   \<and> fetch env_proxy_png 0 (proxy_prefix @ lit ''u'') = Inr (ok_response png_blob)
   \<and> ok (ok_response png_blob)
   \<and> blob_result (ok_response png_blob) = Inr png_blob
   \<and> processBlob png_blob = Inr \<lparr>base64 = lit ''QUJD'', mimeType = lit ''image/png''\<rparr>
   \<and> snd (urlToBase64 (fetch env_proxy_html 0) (lit ''u''))
       = Inr \<lparr>base64 = lit ''QUJD'', mimeType = lit ''image/png''\<rparr>
   \<and> snd (urlToBase64 (fetch env_proxy_png 0) (lit ''u''))
       = snd (urlToBase64 (fetch env_proxy_html 0) (lit ''u''))"
proof -
  have pre: "proxy_prefix @ lit ''u'' \<noteq> lit ''u''"
    by (simp add: proxy_prefix_def lit_def)
  have h1: "encodeURIComponent (lit ''u'') = Inr (lit ''u'')"
    by (rule enc_u)
  have nimg: "\<not> startsWith (blob_type html_blob) (lit ''image/'')"
    by (simp add: html_blob_def startsWith_def lit_def)
  have h2: "isl (snd (proxy_attempt (fetch env_proxy_html 0) (lit ''u'')))"
    using pre nimg
    by (simp add: proxy_attempt_enc [OF h1] env_proxy_html_def read_response_def
        ok_response_def processBlob_def)
  have h3: "fetch env_proxy_html 0 (lit ''u'') = Inr (ok_response png_blob)"
    by (simp add: env_proxy_html_def)
  have h4: "fetch env_proxy_png 0 (proxy_prefix @ lit ''u'') = Inr (ok_response png_blob)"
    using pre by (simp add: env_proxy_png_def)
  have h5: "ok (ok_response png_blob)"
    by (simp add: ok_response_def)
  have h6: "blob_result (ok_response png_blob) = Inr png_blob"
    by (simp add: ok_response_def)
  have h7: "processBlob png_blob = Inr \<lparr>base64 = lit ''QUJD'', mimeType = lit ''image/png''\<rparr>"
    by (simp add: processBlob_def png_blob_def startsWith_def lit_def array_get_def)
  show ?thesis
    using urlToBase64_direct_like_proxy
        [of "lit ''u''" "lit ''u''" "fetch env_proxy_html 0" "ok_response png_blob" png_blob
          "fetch env_proxy_png 0" "ok_response png_blob", OF h1 h2 h3 h5 h6 h4 h5 h6 h7]
      h1 h2 h3 h4 h5 h6 h7
    by simp
qed

subsection \<open>Non-image content\<close>

lemma load_failed_not_an_image: "load_failed_msg \<noteq> not_an_image_msg"
  by (simp add: load_failed_msg_def not_an_image_msg_def lit_def)

lemma base_image_error_not_an_image: "base_image_error_msg i m \<noteq> not_an_image_msg"
  by (simp add: base_image_error_msg_def not_an_image_msg_def lit_def)

lemma urlToBase64_never_not_an_image:
  "snd (urlToBase64 f u) \<noteq> Inl (Error not_an_image_msg)"
  using urlToBase64_error [of f u "Error not_an_image_msg"] load_failed_not_an_image by auto

lemma urlToBase64_proxy_not_image:
  assumes "encodeURIComponent u = Inr enc"
    and "f (proxy_prefix @ enc) = Inr resp" and "ok resp" and "blob_result resp = Inr b"
    and "\<not> startsWith (blob_type b) (lit ''image/'')"
  shows "fetches (fst (urlToBase64 f u)) = [proxy_prefix @ enc, u]"
    and "ConsoleWarn (Error not_an_image_msg) \<in> set (fst (urlToBase64 f u))"
    and "snd (urlToBase64 f u) =
           (case snd (direct_attempt f u) of
              Inl _ \<Rightarrow> Inl (Error load_failed_msg)
            | Inr pl \<Rightarrow> Inr pl)"
proof -
  have pa: "proxy_attempt f u = ([Fetch (proxy_prefix @ enc)], Inl (Error not_an_image_msg))"
    using assms by (simp add: proxy_attempt_enc read_response_def processBlob_def)
  show "fetches (fst (urlToBase64 f u)) = [proxy_prefix @ enc, u]"
    by (simp add: urlToBase64_def pa direct_attempt_def split: sum.split)
  show "ConsoleWarn (Error not_an_image_msg) \<in> set (fst (urlToBase64 f u))"
    by (simp add: urlToBase64_def pa direct_attempt_def split: sum.split)
  show "snd (urlToBase64 f u) =
           (case snd (direct_attempt f u) of
              Inl _ \<Rightarrow> Inl (Error load_failed_msg)
            | Inr pl \<Rightarrow> Inr pl)"
    by (simp add: urlToBase64_def pa direct_attempt_def split: sum.split)
qed

lemma urlToBase64_direct_not_image:
  assumes "isl (snd (proxy_attempt f u))"
    and "f u = Inr resp" and "ok resp" and "blob_result resp = Inr b"
    and "\<not> startsWith (blob_type b) (lit ''image/'')"
  shows "snd (urlToBase64 f u) = Inl (Error load_failed_msg)"
    and "ConsoleError (Error not_an_image_msg) \<in> set (fst (urlToBase64 f u))"
proof -
  have da: "direct_attempt f u = ([Fetch u], Inl (Error not_an_image_msg))"
    using assms by (simp add: direct_attempt_def read_response_def processBlob_def)
  obtain ev err where pa: "proxy_attempt f u = (ev, Inl err)"
  proof (cases "proxy_attempt f u")
    case (Pair a r)
    then show ?thesis using assms(1) that by (cases r) simp_all
  qed
  show "snd (urlToBase64 f u) = Inl (Error load_failed_msg)"
    by (simp add: urlToBase64_def pa da)
  show "ConsoleError (Error not_an_image_msg) \<in> set (fst (urlToBase64 f u))"
    by (simp add: urlToBase64_def pa da)
qed

section \<open>Properties of the orchestrator\<close>

subsection \<open>The parts of a request\<close>

lemma trim_Nil: "trim [] = []"
  by (simp add: trim_def)

lemma build_parts_blank:
  "array_get urls i = None \<or> (\<exists>u. array_get urls i = Some u \<and> trim u = []) \<Longrightarrow>
   build_parts e p urls i = ([], Inr [text_part p])"
  by (auto simp: build_parts_def)

lemma build_parts_resolved:
  "array_get urls i = Some u \<Longrightarrow> trim u \<noteq> [] \<Longrightarrow>
   snd (urlToBase64 (fetch e i) u) = Inr pl \<Longrightarrow>
   build_parts e p urls i = (fst (urlToBase64 (fetch e i) u), Inr [inline_part pl, text_part p])"
  by (auto simp: build_parts_def trim_Nil split: prod.split sum.split)

lemma build_parts_failed:
  "array_get urls i = Some u \<Longrightarrow> trim u \<noteq> [] \<Longrightarrow>
   isl (snd (urlToBase64 (fetch e i) u)) \<Longrightarrow>
   build_parts e p urls i =
     (fst (urlToBase64 (fetch e i) u), Inl (Error (base_image_error_msg i load_failed_msg)))"
proof -
  assume a: "array_get urls i = Some u" "trim u \<noteq> []" "isl (snd (urlToBase64 (fetch e i) u))"
  then obtain err where "snd (urlToBase64 (fetch e i) u) = Inl err"
    by (cases "snd (urlToBase64 (fetch e i) u)") auto
  moreover from this have "err = Error load_failed_msg"
    by (rule urlToBase64_error)
  ultimately show ?thesis
    using a by (auto simp: build_parts_def trim_Nil split: prod.split sum.split)
qed

lemma build_parts_requests: "requests (fst (build_parts e p urls i)) = []"
  using urlToBase64_requests [of "fetch e i"]
  by (auto simp: build_parts_def split: option.split prod.split sum.split)
    (metis fst_conv)+

lemma build_parts_fails_iff: "isl (snd (build_parts e p urls i)) \<longleftrightarrow> reference_fails e urls i"
proof (cases "array_get urls i")
  case None
  then show ?thesis by (simp add: build_parts_blank reference_fails_def)
next
  case (Some u)
  show ?thesis
  proof (cases "trim u = []")
    case True
    then show ?thesis using Some by (simp add: build_parts_blank reference_fails_def)
  next
    case False
    show ?thesis
    proof (cases "snd (urlToBase64 (fetch e i) u)")
      case (Inl err)
      then show ?thesis
        using Some False build_parts_failed [of urls i u e p] by (simp add: reference_fails_def)
    next
      case (Inr pl)
      then show ?thesis
        using Some False build_parts_resolved [of urls i u e pl p] by (simp add: reference_fails_def)
    qed
  qed
qed

lemma build_parts_never_not_an_image:
  "snd (build_parts e p urls i) \<noteq> Inl (Error not_an_image_msg)"
proof (cases "reference_fails e urls i")
  case True
  then obtain u where u: "array_get urls i = Some u" "trim u \<noteq> []"
    "isl (snd (urlToBase64 (fetch e i) u))"
    by (auto simp: reference_fails_def split: option.splits)
  show ?thesis
    using build_parts_failed [OF u, of p] base_image_error_not_an_image by simp
next
  case False
  then have "\<not> isl (snd (build_parts e p urls i))"
    by (simp add: build_parts_fails_iff)
  then show ?thesis by auto
qed

lemma build_parts_settled: "build_parts (e\<lparr>settled := s\<rparr>) p urls i = build_parts e p urls i"
  by (simp add: build_parts_def cong: option.case_cong if_cong prod.case_cong sum.case_cong)

subsection \<open>One task\<close>

lemma task_requests:
  "requests (fst (task e p urls i)) =
     (case snd (build_parts e p urls i) of Inl _ \<Rightarrow> [] | Inr ps \<Rightarrow> [make_request ps])"
  using build_parts_requests [of e p urls i]
  by (auto simp: task_def requests_append split: prod.split sum.split)

lemma task_result:
  "snd (task e p urls i) =
     (case snd (build_parts e p urls i) of
        Inl err \<Rightarrow> Inl err
      | Inr ps \<Rightarrow>
          (case generateContent e i (make_request ps) of
             Inl err \<Rightarrow> Inl err
           | Inr r \<Rightarrow> extract_image i r))"
  by (auto simp: task_def split: prod.split sum.split)

lemma task_settled: "task (e\<lparr>settled := s\<rparr>) p urls i = task e p urls i"
  by (simp add: task_def build_parts_settled cong: prod.case_cong sum.case_cong)




lemma task_failed_reference:
  assumes "array_get urls i = Some u" and "trim u \<noteq> []"
    and "isl (snd (urlToBase64 (fetch e i) u))"
  shows "task e p urls i =
     (fst (urlToBase64 (fetch e i) u), Inl (Error (base_image_error_msg i load_failed_msg)))"
  using build_parts_failed [OF assms, of p] by (simp add: task_def)

lemma task_resolved_events:
  assumes "array_get urls i = Some u" and "trim u \<noteq> []"
    and "snd (urlToBase64 (fetch e i) u) = Inr pl"
  shows "fst (task e p urls i) =
     fst (urlToBase64 (fetch e i) u) @ [GenerateContent (make_request [inline_part pl, text_part p])]"
  using build_parts_resolved [OF assms, of p] by (simp add: task_def)

lemma task_reference_events:
  assumes "array_get urls i = Some u" and "trim u \<noteq> []"
  shows "fetches (fst (task e p urls i)) = fetches (fst (urlToBase64 (fetch e i) u))"
    and "ev \<in> set (fst (urlToBase64 (fetch e i) u)) \<Longrightarrow> ev \<in> set (fst (task e p urls i))"
proof -
  show "fetches (fst (task e p urls i)) = fetches (fst (urlToBase64 (fetch e i) u))"
  proof (cases "snd (urlToBase64 (fetch e i) u)")
    case (Inl err)
    then show ?thesis using task_failed_reference [OF assms, of e p] by simp
  next
    case (Inr pl)
    then show ?thesis using task_resolved_events [OF assms Inr, of p] by (simp add: fetches_append)
  qed
  show "ev \<in> set (fst (task e p urls i))" if "ev \<in> set (fst (urlToBase64 (fetch e i) u))"
  proof (cases "snd (urlToBase64 (fetch e i) u)")
    case (Inl err)
    then show ?thesis using task_failed_reference [OF assms, of e p] that by simp
  next
    case (Inr pl)
    then show ?thesis using task_resolved_events [OF assms Inr, of p] that by simp
  qed
qed

subsection \<open>Promise.all\<close>

lemma rejected_empty:
  "filter (\<lambda>i. isl (os ! i)) [0..<length os] = [] \<longleftrightarrow> (\<forall>i<length os. \<not> isl (os ! i))"
  by (auto simp: filter_empty_conv)


lemma Promise_all_Inr:
  assumes "Promise_all s os = Inr vs"
  shows "length vs = length os" and "i < length os \<Longrightarrow> os ! i = Inr (vs ! i)"
proof -
  have none: "filter (\<lambda>i. isl (os ! i)) [0..<length os] = []"
    using assms by (auto simp: Promise_all_def split: list.splits)
  then have fulfilled: "\<forall>i<length os. \<not> isl (os ! i)"
    using rejected_empty [of os] by simp
  have vs: "vs = map projr os"
    using assms none by (simp add: Promise_all_def)
  show "length vs = length os"
    using vs by simp
  show "os ! i = Inr (vs ! i)" if "i < length os"
    using fulfilled that vs by (cases "os ! i") auto
qed

lemma Promise_all_rejected:
  assumes "i < length os" and "isl (os ! i)"
  shows "\<exists>k<length os. isl (os ! k) \<and> Promise_all s os = Inl (projl (os ! k))
           \<and> (\<forall>j<length os. isl (os ! j) \<longrightarrow> s k \<le> s j)"
proof -
  let ?rej = "filter (\<lambda>i. isl (os ! i)) [0..<length os]"
  let ?k = "arg_min_list s ?rej"
  have ne: "?rej \<noteq> []"
    using assms rejected_empty [of os] by auto
  have mem: "?k \<in> set ?rej"
    using ne by (rule arg_min_list_in)
  have least: "s ?k \<le> s j" if "j < length os" "isl (os ! j)" for j
  proof -
    have "j \<in> set ?rej" using that by simp
    then have "s j \<in> s ` set ?rej" by (rule imageI)
    moreover have "s ?k = Min (s ` set ?rej)"
      using ne by (rule f_arg_min_list_f)
    ultimately show ?thesis by simp
  qed
  have res: "Promise_all s os = Inl (projl (os ! ?k))"
    using ne by (cases ?rej) (simp_all add: Promise_all_def)
  have "?k < length os \<and> isl (os ! ?k)"
    using mem by simp
  then show ?thesis
    using res least by blast
qed


lemma Promise_all_settle:
  "Promise_all s os = Inr vs \<Longrightarrow> Promise_all s' os = Inr vs"
  by (auto simp: Promise_all_def split: list.splits)

subsection \<open>The batch\<close>

lemma generateImages_events:
  "fst (generateImages e p n urls) = map (\<lambda>i. fst (task e p urls i)) [0..<nat n]"
  by (simp add: generateImages_def Let_def)

lemma generateImages_result:
  "snd (generateImages e p n urls) =
     Promise_all (settled e) (map (\<lambda>i. snd (task e p urls i)) [0..<nat n])"
  by (simp add: generateImages_def Let_def comp_def)

lemma generateImages_nth_events:
  "i < nat n \<Longrightarrow> fst (generateImages e p n urls) ! i = fst (task e p urls i)"
  by (simp add: generateImages_events)

lemma generateImages_fails:
  assumes "i < nat n" and "isl (snd (task e p urls i))"
  shows "isl (snd (generateImages e p n urls))"
proof -
  let ?os = "map (\<lambda>i. snd (task e p urls i)) [0..<nat n]"
  have "i < length ?os" "isl (?os ! i)" using assms by simp_all
  from Promise_all_rejected [OF this, of "settled e"]
  show ?thesis by (auto simp: generateImages_result)
qed



subsection \<open>Claim C10: reading the answer\<close>

lemma first_inline_None: "first_inline pts = None \<longleftrightarrow> (\<forall>pt \<in> set pts. inlineData pt = None)"
  by (induction pts) (auto split: option.split)

lemma first_inline_first:
  "\<forall>q \<in> set pre. inlineData q = None \<Longrightarrow> inlineData pt = Some d \<Longrightarrow>
   first_inline (pre @ pt # post) = Some (data_url d)"
  by (induction pre) simp_all

text \<open>
  C10. The parts of the first candidate are read without a guard. When the answer has a
  first candidate with a content and a list of parts, the extraction returns either the
  data URL of the first part that carries inline data or the error
  "La imagen i+1 no pudo ser generada."; it raises that error exactly when no part
  carries inline data. When the answer has no candidates the access faults with a
  \<open>TypeError\<close>, which is not that error.
\<close>

theorem extract_image_unguarded:
  "(candidates r = Some (c # cs) \<and> candidate_content c = Some ct \<and> parts ct = Some pts \<longrightarrow>
      extract_image i r =
        (case first_inline pts of
           Some url \<Rightarrow> Inr url
         | None \<Rightarrow> Inl (Error (not_generated_msg i)))
      \<and> (extract_image i r = Inl (Error (not_generated_msg i))
           \<longleftrightarrow> (\<forall>pt \<in> set pts. inlineData pt = None))
      \<and> (\<forall>pre pt post d.
             pts = pre @ pt # post \<and> (\<forall>q \<in> set pre. inlineData q = None)
             \<and> inlineData pt = Some d
             \<longrightarrow> extract_image i r = Inr (data_url d)))
   \<and> (candidates r = None \<or> candidates r = Some [] \<longrightarrow>
        (\<exists>fault. extract_image i r = Inl (TypeError fault))
        \<and> extract_image i r \<noteq> Inl (Error (not_generated_msg i)))"
proof -
  have guarded: "extract_image i r =
        (case first_inline pts of
           Some url \<Rightarrow> Inr url
         | None \<Rightarrow> Inl (Error (not_generated_msg i)))"
    if "candidates r = Some (c # cs)" "candidate_content c = Some ct" "parts ct = Some pts"
    using that by (simp add: extract_image_def)
  have exactly: "extract_image i r = Inl (Error (not_generated_msg i))
           \<longleftrightarrow> (\<forall>pt \<in> set pts. inlineData pt = None)"
    if "candidates r = Some (c # cs)" "candidate_content c = Some ct" "parts ct = Some pts"
    using guarded [OF that] first_inline_None [of pts] by (auto split: option.splits)
  have first: "extract_image i r = Inr (data_url d)"
    if "candidates r = Some (c # cs)" "candidate_content c = Some ct" "parts ct = Some pts"
      "pts = pre @ pt # post" "\<forall>q \<in> set pre. inlineData q = None" "inlineData pt = Some d"
    for pre pt post d
    using guarded [OF that(1-3)] first_inline_first [OF that(5,6), of post] that(4) by simp
  have fault: "(\<exists>fault. extract_image i r = Inl (TypeError fault))
        \<and> extract_image i r \<noteq> Inl (Error (not_generated_msg i))"
    if "candidates r = None \<or> candidates r = Some []"
    using that by (auto simp: extract_image_def)
  show ?thesis using guarded exactly first fault by blast
qed

text \<open>
  Run on an answer with one image part, an answer with an empty list of candidates and an
  answer with a text part only.
\<close>

theorem extract_image_unguarded_witness:
  "candidates image_answer
     = Some [\<lparr>candidate_content = Some \<lparr>parts = Some [\<lparr>part_text = None, inlineData = Some png_inline\<rparr>]\<rparr>\<rparr>]
   \<and> extract_image 0 image_answer = Inr (lit ''data:image/png;base64,QUJD'')
   \<and> candidates no_candidates = Some []
   \<and> extract_image 0 no_candidates = Inl (TypeError FirstCandidateUndefined)
   \<and> extract_image 0 no_candidates \<noteq> Inl (Error (not_generated_msg 0))
   \<and> extract_image 1 (answer_of [\<lparr>part_text = Some (lit ''no''), inlineData = None\<rparr>])
       = Inl (Error (lit ''La imagen 2 no pudo ser generada.''))"
proof -
  have c1: "candidates image_answer
     = Some [\<lparr>candidate_content = Some \<lparr>parts = Some [\<lparr>part_text = None, inlineData = Some png_inline\<rparr>]\<rparr>\<rparr>]"
    by (simp add: image_answer_def answer_of_def)
  have du: "data_url png_inline = lit ''data:image/png;base64,QUJD''"
    by (simp add: data_url_def png_inline_def template_def lit_def)
  have c2: "candidates no_candidates = Some []"
    by (simp add: no_candidates_def)
  have msg: "not_generated_msg 1 = lit ''La imagen 2 no pudo ser generada.''"
    by (simp add: not_generated_msg_def Number_toString.simps lit_def)
  have a: "extract_image 0 image_answer = Inr (lit ''data:image/png;base64,QUJD'')"
    using extract_image_unguarded
      [of image_answer "\<lparr>candidate_content = Some \<lparr>parts = Some [\<lparr>part_text = None, inlineData = Some png_inline\<rparr>]\<rparr>\<rparr>"
        "[]" "\<lparr>parts = Some [\<lparr>part_text = None, inlineData = Some png_inline\<rparr>]\<rparr>"
        "[\<lparr>part_text = None, inlineData = Some png_inline\<rparr>]" 0] c1 du
    by simp
  have b: "extract_image 0 no_candidates \<noteq> Inl (Error (not_generated_msg 0))"
    using extract_image_unguarded [of no_candidates _ _ _ _ 0] c2 by simp
  have b': "extract_image 0 no_candidates = Inl (TypeError FirstCandidateUndefined)"
    by (simp add: extract_image_def no_candidates_def)
  have c: "extract_image 1 (answer_of [\<lparr>part_text = Some (lit ''no''), inlineData = None\<rparr>])
       = Inl (Error (lit ''La imagen 2 no pudo ser generada.''))"
    using extract_image_unguarded
      [of "answer_of [\<lparr>part_text = Some (lit ''no''), inlineData = None\<rparr>]"
        "\<lparr>candidate_content = Some \<lparr>parts = Some [\<lparr>part_text = Some (lit ''no''), inlineData = None\<rparr>]\<rparr>\<rparr>"
        "[]" "\<lparr>parts = Some [\<lparr>part_text = Some (lit ''no''), inlineData = None\<rparr>]\<rparr>"
        "[\<lparr>part_text = Some (lit ''no''), inlineData = None\<rparr>]" 1] msg
    by (simp add: answer_of_def)
  show ?thesis using c1 a c2 b b' c by simp
qed

subsection \<open>Claim C1: no references\<close>



subsection \<open>Claim C5: which requests carry a reference\<close>




subsection \<open>Claim C4: the order of the images\<close>

text \<open>
  C4. On success the list has one image per index, and the image at position \<open>i\<close> is the
  one extracted from the answer to the request built for index \<open>i\<close>. The list is the same
  whatever the times at which the promises settle.
\<close>

theorem generateImages_request_order:
  assumes "snd (generateImages e p n urls) = Inr imgs"
  shows "length imgs = nat n
     \<and> (\<forall>i<nat n. \<exists>ps r.
           snd (build_parts e p urls i) = Inr ps
           \<and> requests (fst (generateImages e p n urls) ! i) = [make_request ps]
           \<and> generateContent e i (make_request ps) = Inr r
           \<and> extract_image i r = Inr (imgs ! i))
     \<and> (\<forall>s. snd (generateImages (e\<lparr>settled := s\<rparr>) p n urls) = Inr imgs)"
proof -
  let ?os = "map (\<lambda>i. snd (task e p urls i)) [0..<nat n]"
  have pa: "Promise_all (settled e) ?os = Inr imgs"
    using assms by (simp add: generateImages_result)
  have len: "length imgs = nat n"
    using Promise_all_Inr(1) [OF pa] by simp
  have each: "snd (task e p urls i) = Inr (imgs ! i)" if "i < nat n" for i
    using Promise_all_Inr(2) [OF pa, of i] that by simp
  have built: "\<exists>ps r. snd (build_parts e p urls i) = Inr ps
           \<and> requests (fst (generateImages e p n urls) ! i) = [make_request ps]
           \<and> generateContent e i (make_request ps) = Inr r
           \<and> extract_image i r = Inr (imgs ! i)" if lt: "i < nat n" for i
  proof -
    obtain ps where ps: "snd (build_parts e p urls i) = Inr ps"
      using each [OF lt] by (cases "snd (build_parts e p urls i)") (simp_all add: task_result)
    obtain r where r: "generateContent e i (make_request ps) = Inr r"
      using each [OF lt] ps
      by (cases "generateContent e i (make_request ps)") (simp_all add: task_result)
    have ex: "extract_image i r = Inr (imgs ! i)"
      using each [OF lt] ps r by (simp add: task_result)
    have "fst (generateImages e p n urls) ! i = fst (task e p urls i)"
      using lt by (simp add: generateImages_events)
    then have "requests (fst (generateImages e p n urls) ! i) = [make_request ps]"
      using ps by (simp add: task_requests)
    then show ?thesis using ps r ex by blast
  qed
  have indep: "snd (generateImages (e\<lparr>settled := s\<rparr>) p n urls) = Inr imgs" for s
    using Promise_all_settle [OF pa, of s] by (simp add: generateImages_result task_settled)
  show ?thesis
  proof (intro conjI allI impI)
    show "length imgs = nat n" by (rule len)
    show "\<exists>ps r. snd (build_parts e p urls i) = Inr ps
           \<and> requests (fst (generateImages e p n urls) ! i) = [make_request ps]
           \<and> generateContent e i (make_request ps) = Inr r
           \<and> extract_image i r = Inr (imgs ! i)" if "i < nat n" for i
      using that by (rule built)
    show "snd (generateImages (e\<lparr>settled := s\<rparr>) p n urls) = Inr imgs" for s
      by (rule indep)
  qed
qed

text \<open>
  Run with numbered answers whose promises settle in reverse order, and again with the
  promises settling in the order of the indices.
\<close>

theorem generateImages_request_order_witness:
  "snd (generateImages env_numbered (lit ''p'') 2 [])
     = Inr [lit ''data:image/png;base64,0'', lit ''data:image/png;base64,1'']
   \<and> settled env_numbered 1 < settled env_numbered 0
   \<and> generateContent env_numbered 1 (make_request [text_part (lit ''p'')]) = Inr (numbered_answer 1)
   \<and> extract_image 1 (numbered_answer 1) = Inr (lit ''data:image/png;base64,1'')
   \<and> snd (generateImages (env_numbered\<lparr>settled := \<lambda>i. i\<rparr>) (lit ''p'') 2 [])
       = Inr [lit ''data:image/png;base64,0'', lit ''data:image/png;base64,1'']"
proof -
  have res: "snd (generateImages env_numbered (lit ''p'') 2 [])
     = Inr [lit ''data:image/png;base64,0'', lit ''data:image/png;base64,1'']"
    by code_simp
  note t = generateImages_request_order [OF res]
  have st: "settled env_numbered 1 < settled env_numbered 0"
    by (simp add: env_numbered_def)
  have g: "generateContent env_numbered 1 r = Inr (numbered_answer 1)" for r
    by (simp add: env_numbered_def)
  have "(1::nat) < nat 2" by simp
  from t [THEN conjunct2, THEN conjunct1, rule_format, OF this]
  obtain ps r where gr: "generateContent env_numbered 1 (make_request ps) = Inr r"
    and ex0: "extract_image 1 r
          = Inr ([lit ''data:image/png;base64,0'', lit ''data:image/png;base64,1''] ! 1)"
    by blast
  have "r = numbered_answer 1"
    using gr g [of "make_request ps"] by simp
  then have ex: "extract_image 1 (numbered_answer 1) = Inr (lit ''data:image/png;base64,1'')"
    using ex0 by simp
  from t [THEN conjunct2, THEN conjunct2, rule_format, of "\<lambda>i. i"] have indep: "snd (generateImages (env_numbered\<lparr>settled := \<lambda>i. i\<rparr>) (lit ''p'') 2 [])
       = Inr [lit ''data:image/png;base64,0'', lit ''data:image/png;base64,1'']" .
  show ?thesis using res st g ex indep by simp
qed

subsection \<open>Claim C3: one failure fails the batch\<close>

text \<open>
  C3. When the task of some index fails, \<open>generateImages\<close> fails with one error: the
  error of a failing task that no failing task settles before. No list of images is
  returned. \<open>handleGenerateClick\<close> then ends with no images, with the message of that
  error (or the text for an unknown error when the value thrown is not an \<open>Error\<close>) as the
  error shown, and not loading.
\<close>

theorem generateImages_all_or_nothing:
  assumes "i < nat n" and "isl (snd (task e p urls i))"
  shows "\<exists>k err. k < nat n \<and> snd (task e p urls k) = Inl err
           \<and> (\<forall>j<nat n. isl (snd (task e p urls j)) \<longrightarrow> settled e k \<le> settled e j)
           \<and> snd (generateImages e p n urls) = Inl err
           \<and> (\<forall>st. trim (prompt st) \<noteq> [] \<and> \<not> isLoading st \<and> prompt st = p \<and> numImages st = n
                   \<and> compact_urls (baseImageUrls st) = urls
                 \<longrightarrow> generatedImages (snd (handleGenerateClick e st)) = []
                     \<and> error (snd (handleGenerateClick e st))
                         = Some (if instanceof_Error err then message (engine_text e) err
                                 else unknown_error_msg)
                     \<and> \<not> isLoading (snd (handleGenerateClick e st)))"
proof -
  let ?os = "map (\<lambda>i. snd (task e p urls i)) [0..<nat n]"
  have "i < length ?os" "isl (?os ! i)" using assms by simp_all
  from Promise_all_rejected [OF this, of "settled e"]
  obtain k where k: "k < nat n" "isl (snd (task e p urls k))"
    "Promise_all (settled e) ?os = Inl (projl (snd (task e p urls k)))"
    "\<forall>j<nat n. isl (snd (task e p urls j)) \<longrightarrow> settled e k \<le> settled e j"
    by auto
  define err where "err = projl (snd (task e p urls k))"
  have tk: "snd (task e p urls k) = Inl err"
    using k(2) by (simp add: err_def)
  have res: "snd (generateImages e p n urls) = Inl err"
    using k(3) by (simp add: generateImages_result err_def)
  have caller: "generatedImages (snd (handleGenerateClick e st)) = []
      \<and> error (snd (handleGenerateClick e st))
          = Some (if instanceof_Error err then message (engine_text e) err else unknown_error_msg)
      \<and> \<not> isLoading (snd (handleGenerateClick e st))"
    if "trim (prompt st) \<noteq> []" "\<not> isLoading st" "prompt st = p" "numImages st = n"
      "compact_urls (baseImageUrls st) = urls" for st
    using that res
    by (cases "generateImages e p n urls") (simp add: handleGenerateClick_def Let_def)
  have "k < nat n \<and> snd (task e p urls k) = Inl err
      \<and> (\<forall>j<nat n. isl (snd (task e p urls j)) \<longrightarrow> settled e k \<le> settled e j)
      \<and> snd (generateImages e p n urls) = Inl err
      \<and> (\<forall>st. trim (prompt st) \<noteq> [] \<and> \<not> isLoading st \<and> prompt st = p \<and> numImages st = n
              \<and> compact_urls (baseImageUrls st) = urls
            \<longrightarrow> generatedImages (snd (handleGenerateClick e st)) = []
                \<and> error (snd (handleGenerateClick e st))
                    = Some (if instanceof_Error err then message (engine_text e) err
                            else unknown_error_msg)
                \<and> \<not> isLoading (snd (handleGenerateClick e st)))"
    using k(1) tk k(4) res caller by (intro conjI allI impI) (simp_all only:, blast+)
  then show ?thesis by (intro exI)
qed

text \<open>
  Run with two failing tasks: the reference of index 0 cannot be fetched and the answer
  for index 1 has no image; the promise of index 1 settles first.
\<close>

theorem generateImages_all_or_nothing_witness:
  "(1::nat) < nat 2
   \<and> isl (snd (task env_text_answer (lit ''p'') [lit ''u''] 0))
   \<and> isl (snd (task env_text_answer (lit ''p'') [lit ''u''] 1))
   \<and> settled env_text_answer 1 < settled env_text_answer 0
   \<and> snd (generateImages env_text_answer (lit ''p'') 2 [lit ''u''])
       = Inl (Error (lit ''La imagen 2 no pudo ser generada.''))
   \<and> trim (prompt sample_state) \<noteq> [] \<and> \<not> isLoading sample_state
   \<and> prompt sample_state = lit ''p'' \<and> numImages sample_state = 2
   \<and> compact_urls (baseImageUrls sample_state) = [lit ''u'']
   \<and> generatedImages (snd (handleGenerateClick env_text_answer sample_state)) = []
   \<and> error (snd (handleGenerateClick env_text_answer sample_state))
       = Some (lit ''La imagen 2 no pudo ser generada.'')
   \<and> \<not> isLoading (snd (handleGenerateClick env_text_answer sample_state))"
proof -
  have lt: "(1::nat) < nat 2" by simp
  have t0: "isl (snd (task env_text_answer (lit ''p'') [lit ''u''] 0))" by code_simp
  have t1: "isl (snd (task env_text_answer (lit ''p'') [lit ''u''] 1))" by code_simp
  have st: "settled env_text_answer 1 < settled env_text_answer 0"
    by (simp add: env_text_answer_def)
  have res: "snd (generateImages env_text_answer (lit ''p'') 2 [lit ''u''])
       = Inl (Error (lit ''La imagen 2 no pudo ser generada.''))"
    by code_simp
  have s1: "trim (prompt sample_state) \<noteq> []"
    by (simp add: sample_state_def trim_def lit_def WhiteSpace_def)
  have s2: "\<not> isLoading sample_state" by (simp add: sample_state_def)
  have s3: "prompt sample_state = lit ''p''" by (simp add: sample_state_def)
  have s4: "numImages sample_state = 2" by (simp add: sample_state_def)
  have s5: "compact_urls (baseImageUrls sample_state) = [lit ''u'']"
    using blank_space nonblank_u by (simp add: sample_state_def compact_urls_def)
  from generateImages_all_or_nothing [OF lt t1]
  obtain k err where
    e: "snd (generateImages env_text_answer (lit ''p'') 2 [lit ''u'']) = Inl err"
    and c: "\<forall>st. trim (prompt st) \<noteq> [] \<and> \<not> isLoading st \<and> prompt st = lit ''p''
              \<and> numImages st = 2 \<and> compact_urls (baseImageUrls st) = [lit ''u'']
            \<longrightarrow> generatedImages (snd (handleGenerateClick env_text_answer st)) = []
                \<and> error (snd (handleGenerateClick env_text_answer st))
                    = Some (if instanceof_Error err
                            then message (engine_text env_text_answer) err
                            else unknown_error_msg)
                \<and> \<not> isLoading (snd (handleGenerateClick env_text_answer st))"
    by blast
  have err: "err = Error (lit ''La imagen 2 no pudo ser generada.'')"
    using e res by simp
  have "generatedImages (snd (handleGenerateClick env_text_answer sample_state)) = []
      \<and> error (snd (handleGenerateClick env_text_answer sample_state))
          = Some (lit ''La imagen 2 no pudo ser generada.'')
      \<and> \<not> isLoading (snd (handleGenerateClick env_text_answer sample_state))"
    using c [rule_format, of sample_state] s1 s2 s3 s4 s5 by (simp add: err)
  then show ?thesis
    using lt t0 t1 st res s1 s2 s3 s4 s5 by simp
qed

subsection \<open>Claim C6: content that is not an image\<close>

text \<open>
  C6, as stated, fails. When the proxy answers with a web page and the direct fetch
  delivers the image, a fetch has returned content that is not an image and the batch
  succeeds. When both fetches return a web page the batch fails, and the error is the
  one about the link that could not be loaded.
\<close>

theorem not_an_image_counterexample:
  "fetch env_proxy_html 0 (proxy_prefix @ lit ''u'') = Inr (ok_response html_blob)
   \<and> \<not> startsWith (blob_type html_blob) (lit ''image/'')
   \<and> snd (generateImages env_proxy_html (lit ''p'') 1 [lit ''u''])
       = Inr [lit ''data:image/png;base64,QUJD'']
   \<and> fetch env_html 0 (lit ''u'') = Inr (ok_response html_blob)
   \<and> snd (generateImages env_html (lit ''p'') 1 [lit ''u''])
       = Inl (Error (lit ''Error con la Imagen Base 1: '' @ load_failed_msg))"
  by code_simp

text \<open>
  C6, amended. For a reference that is present and not blank: content that is not an
  image on the proxy path makes \<open>urlToBase64\<close> go on to the direct fetch, and the error
  "Fetched file is not an image." is logged as a warning. Content that is not an image on
  the direct path, after a failed proxy attempt, makes the task fail with
  "Error con la Imagen Base i+1: " followed by the message about the link, so the batch
  fails; the error "Fetched file is not an image." is logged. That error is never the
  error of the resolution of a reference.
\<close>

theorem non_image_response_handling:
  assumes "i < nat n" and "array_get urls i = Some u" and "trim u \<noteq> []"
    and "encodeURIComponent u = Inr enc"
  shows "(\<forall>resp b. fetch e i (proxy_prefix @ enc) = Inr resp \<and> ok resp \<and> blob_result resp = Inr b
            \<and> \<not> startsWith (blob_type b) (lit ''image/'')
          \<longrightarrow> fetches (fst (generateImages e p n urls) ! i) = [proxy_prefix @ enc, u]
              \<and> ConsoleWarn (Error not_an_image_msg) \<in> set (fst (generateImages e p n urls) ! i))
     \<and> (\<forall>resp b. isl (snd (proxy_attempt (fetch e i) u))
            \<and> fetch e i u = Inr resp \<and> ok resp \<and> blob_result resp = Inr b
            \<and> \<not> startsWith (blob_type b) (lit ''image/'')
          \<longrightarrow> snd (task e p urls i) = Inl (Error (base_image_error_msg i load_failed_msg))
              \<and> isl (snd (generateImages e p n urls))
              \<and> ConsoleError (Error not_an_image_msg) \<in> set (fst (generateImages e p n urls) ! i))
     \<and> snd (urlToBase64 (fetch e i) u) \<noteq> Inl (Error not_an_image_msg)
     \<and> snd (build_parts e p urls i) \<noteq> Inl (Error not_an_image_msg)"
proof (intro conjI allI impI)
  fix resp b
  assume h: "fetch e i (proxy_prefix @ enc) = Inr resp \<and> ok resp \<and> blob_result resp = Inr b
            \<and> \<not> startsWith (blob_type b) (lit ''image/'')"
  note px = urlToBase64_proxy_not_image [OF assms(4), of "fetch e i" resp b]
  show "fetches (fst (generateImages e p n urls) ! i) = [proxy_prefix @ enc, u]"
    using h px(1) assms(1) task_reference_events(1) [OF assms(2,3), of e p]
    by (simp add: generateImages_nth_events)
  show "ConsoleWarn (Error not_an_image_msg) \<in> set (fst (generateImages e p n urls) ! i)"
    using h px(2) assms(1) task_reference_events(2) [OF assms(2,3), of _ e p]
    by (simp add: generateImages_nth_events)
next
  fix resp b
  assume h: "isl (snd (proxy_attempt (fetch e i) u))
            \<and> fetch e i u = Inr resp \<and> ok resp \<and> blob_result resp = Inr b
            \<and> \<not> startsWith (blob_type b) (lit ''image/'')"
  note dr = urlToBase64_direct_not_image [of "fetch e i" u resp b]
  have fails: "isl (snd (urlToBase64 (fetch e i) u))"
    using h dr(1) by simp
  show t: "snd (task e p urls i) = Inl (Error (base_image_error_msg i load_failed_msg))"
    using task_failed_reference [OF assms(2,3) fails, of p] by simp
  show "isl (snd (generateImages e p n urls))"
    using generateImages_fails [OF assms(1), of e p urls] t by simp
  show "ConsoleError (Error not_an_image_msg) \<in> set (fst (generateImages e p n urls) ! i)"
    using h dr(2) assms(1) task_reference_events(2) [OF assms(2,3), of _ e p]
    by (simp add: generateImages_nth_events)
next
  show "snd (urlToBase64 (fetch e i) u) \<noteq> Inl (Error not_an_image_msg)"
    by (rule urlToBase64_never_not_an_image)
  show "snd (build_parts e p urls i) \<noteq> Inl (Error not_an_image_msg)"
    by (rule build_parts_never_not_an_image)
qed

text \<open>Run on the network where every fetch is answered with a web page.\<close>

theorem non_image_response_handling_witness:
  "(0::nat) < nat 1 \<and> array_get [lit ''u''] 0 = Some (lit ''u'') \<and> trim (lit ''u'') \<noteq> []
   \<and> encodeURIComponent (lit ''u'') = Inr (lit ''u'')
   \<and> fetch env_html 0 (proxy_prefix @ lit ''u'') = Inr (ok_response html_blob)
   \<and> fetch env_html 0 (lit ''u'') = Inr (ok_response html_blob)
   \<and> ok (ok_response html_blob) \<and> blob_result (ok_response html_blob) = Inr html_blob
   \<and> \<not> startsWith (blob_type html_blob) (lit ''image/'')
   \<and> isl (snd (proxy_attempt (fetch env_html 0) (lit ''u'')))
   \<and> fetches (fst (generateImages env_html (lit ''p'') 1 [lit ''u'']) ! 0)
       = [proxy_prefix @ lit ''u'', lit ''u'']
   \<and> ConsoleWarn (Error not_an_image_msg)
       \<in> set (fst (generateImages env_html (lit ''p'') 1 [lit ''u'']) ! 0)
   \<and> ConsoleError (Error not_an_image_msg)
       \<in> set (fst (generateImages env_html (lit ''p'') 1 [lit ''u'']) ! 0)
   \<and> snd (task env_html (lit ''p'') [lit ''u''] 0)
       = Inl (Error (base_image_error_msg 0 load_failed_msg))
   \<and> isl (snd (generateImages env_html (lit ''p'') 1 [lit ''u'']))"
proof -
  have lt: "(0::nat) < nat 1" by simp
  have a0: "array_get [lit ''u''] 0 = Some (lit ''u'')" by (simp add: array_get_def)
  have f: "fetch env_html 0 x = Inr (ok_response html_blob)" for x
    by (simp add: env_html_def)
  have o: "ok (ok_response html_blob)" "blob_result (ok_response html_blob) = Inr html_blob"
    by (simp_all add: ok_response_def)
  have pa: "isl (snd (proxy_attempt (fetch env_html 0) (lit ''u'')))"
    using html_not_image
    by (simp add: proxy_attempt_enc [OF enc_u] f read_response_def o processBlob_def)
  note t = non_image_response_handling [OF lt a0 nonblank_u enc_u, of env_html "lit ''p''"]
  note t1 = t [THEN conjunct1, rule_format, of "ok_response html_blob" html_blob]
  note t2 = t [THEN conjunct2, THEN conjunct1, rule_format, of "ok_response html_blob" html_blob]
  show ?thesis
    using t1 t2 lt a0 nonblank_u enc_u f o html_not_image pa by simp
qed

subsection \<open>Claim C7: the slot named by the error\<close>




section \<open>Properties of the caller\<close>




subsection \<open>Claim C9: blank slots are removed before the call\<close>



end
